theory Spec2Isabelle
  imports Complex_Main "HOL-Library.Product_Lexorder"
begin

section \<open>Match scoring (backend/jobs/calculate\_matches.py)\<close>

text \<open>
  Skill ids are integers. A volunteer's skills are a Python dictionary from skill id to
  weight, modelled as a partial map. Python floats are modelled as real numbers: every
  statement below is about exact arithmetic, and the rounding, underflow and overflow of
  IEEE doubles are outside the model.
\<close>

type_synonym skill_id = int
type_synonym weights = "skill_id \<rightharpoonup> real"

definition dict_get :: "('k \<rightharpoonup> 'v) \<Rightarrow> 'k \<Rightarrow> 'v \<Rightarrow> 'v" where
  \<comment> \<open>\<open>d.get(k, default)\<close>\<close>
  "dict_get d k dflt = (case d k of None \<Rightarrow> dflt | Some v \<Rightarrow> v)"

definition ones :: "nat \<Rightarrow> real list" where
  \<comment> \<open>\<open>np.ones(n)\<close>\<close>
  "ones n = replicate n 1"

definition dot :: "real list \<Rightarrow> real list \<Rightarrow> real" where
  \<comment> \<open>\<open>np.dot\<close> of two vectors of the same length\<close>
  "dot xs ys = (\<Sum>(x, y) \<leftarrow> zip xs ys. x * y)"

definition norm2 :: "real list \<Rightarrow> real" where
  \<comment> \<open>\<open>np.linalg.norm\<close> of a vector: the Euclidean norm\<close>
  "norm2 xs = sqrt (\<Sum>x \<leftarrow> xs. x * x)"

definition calculate_cosine_similarity ::
  "weights \<Rightarrow> skill_id list \<Rightarrow> real \<times> skill_id list \<times> nat" where
  "calculate_cosine_similarity volunteer_weights project_skill_ids =
     (let matched_ids = filter (\<lambda>sid. sid \<in> dom volunteer_weights) project_skill_ids in
      if matched_ids = [] then (0, [], 0)
      else
        let v_vec = map (\<lambda>sid. the (volunteer_weights sid)) matched_ids;
            p_vec = ones (length matched_ids);
            dot_product = dot v_vec p_vec;
            norm_v = norm2 v_vec;
            norm_p = norm2 p_vec;
            cosine = (if norm_v > 0 \<and> norm_p > 0
                      then dot_product / (norm_v * norm_p) else 0)
        in (cosine, matched_ids, length matched_ids))"

definition calculate_euclidean_similarity :: "weights \<Rightarrow> skill_id list \<Rightarrow> real" where
  "calculate_euclidean_similarity volunteer_weights project_skill_ids =
     (if project_skill_ids = [] then 0
      else
        let v_vec = map (\<lambda>sid. dict_get volunteer_weights sid 0) project_skill_ids;
            p_vec = ones (length project_skill_ids);
            euclidean_dist = norm2 (map2 (-) v_vec p_vec);
            max_possible_dist = sqrt (real (length project_skill_ids));
            normalized_dist = min (euclidean_dist / max_possible_dist) 1
        in 1 - normalized_dist)"

definition calculate_coverage_score :: "weights \<Rightarrow> skill_id list \<Rightarrow> real" where
  "calculate_coverage_score volunteer_weights project_skill_ids =
     (if project_skill_ids = [] then 0
      else
        let total_weight = (\<Sum>sid \<leftarrow> project_skill_ids. dict_get volunteer_weights sid 0)
        in total_weight / real (length project_skill_ids))"

text \<open>The three components of the tuple returned by the cosine function.\<close>

definition cosine_of :: "weights \<Rightarrow> skill_id list \<Rightarrow> real" where
  "cosine_of W R = fst (calculate_cosine_similarity W R)"

definition matched_ids_of :: "weights \<Rightarrow> skill_id list \<Rightarrow> skill_id list" where
  "matched_ids_of W R = fst (snd (calculate_cosine_similarity W R))"

definition matched_count_of :: "weights \<Rightarrow> skill_id list \<Rightarrow> nat" where
  "matched_count_of W R = snd (snd (calculate_cosine_similarity W R))"

definition scale_weights :: "real \<Rightarrow> weights \<Rightarrow> weights" where
  \<comment> \<open>every weight \<open>w\<close> of the dictionary replaced by \<open>c * w\<close>\<close>
  "scale_weights c W = (\<lambda>sid. map_option (\<lambda>w. c * w) (W sid))"

subsection \<open>The stored tables\<close>

text \<open>
  Both jobs work on one database. A table is the list of its rows; identifiers (integer
  keys and UUIDs alike) are natural numbers, and timestamps are natural numbers too.
  Columns that a job never reads are left out.
\<close>

type_synonym uuid = nat
type_synonym timestamp = nat

record volunteer_row =
  v_id :: uuid
  v_user_id :: uuid
  v_name :: string
  v_skills_visible :: bool

record match_record =
  vim_volunteer_id :: uuid
  vim_initiative_id :: uuid
  vim_match_score :: real
  vim_jaccard_index :: real
  vim_matched_skill_ids :: "skill_id list"
  vim_matched_skill_count :: nat
  vim_calculated_at :: timestamp

record project_row =
  p_id :: uuid
  p_title :: string
  p_team_lead_id :: "uuid option"
  p_created_by_admin_id :: "uuid option"
  p_project_status :: string
  p_created_at :: timestamp

record project_match_row =
  vpm_project_id :: uuid
  vpm_volunteer_id :: uuid
  vpm_match_score :: real
  vpm_matched_skill_count :: int

record notification_row =
  cn_id :: uuid
  cn_project_id :: uuid
  cn_volunteer_id :: uuid
  cn_match_score :: real
  cn_notification_batch_id :: uuid
  cn_notified_at :: timestamp

record message_row =
  pm_id :: uuid
  pm_project_id :: uuid
  pm_sender_id :: uuid
  pm_message_text :: string
  pm_created_at :: timestamp

record database =
  tbl_initiatives :: "(uuid \<times> string) list"
  tbl_initiative_required_skills :: "(uuid \<times> skill_id) list"
  tbl_volunteers :: "volunteer_row list"
  tbl_volunteer_skills :: "(uuid \<times> skill_id \<times> real) list"
  tbl_volunteer_initiative_matches :: "match_record list"
  tbl_projects :: "project_row list"
  tbl_volunteer_project_matches :: "project_match_row list"
  tbl_candidate_notifications :: "notification_row list"
  tbl_project_messages :: "message_row list"

subsection \<open>The recompute pipeline\<close>

text \<open>
  The first query joins the active initiatives with their required skills and groups by
  initiative: one row per initiative that has at least one required skill, with the list
  of its skill ids. SQL leaves the order of the groups and of \<open>array_agg\<close> open; the
  model takes table order.
\<close>

definition select_active_initiatives :: "database \<Rightarrow> (uuid \<times> skill_id list) list" where
  "select_active_initiatives db =
     (let joined = [(i, s). (i, status) \<leftarrow> tbl_initiatives db, status = ''active'',
                            (j, s) \<leftarrow> tbl_initiative_required_skills db, j = i]
      in map (\<lambda>i. (i, map snd (filter (\<lambda>(j, s). j = i) joined))) (remdups (map fst joined)))"

definition select_volunteer_skills :: "database \<Rightarrow> (uuid \<times> skill_id \<times> real) list" where
  \<comment> \<open>\<open>ORDER BY v.id, vs.skill_id\<close>\<close>
  "select_volunteer_skills db =
     sort_key (\<lambda>(volunteer_id, skill_id, weight). (volunteer_id, skill_id))
       [(volunteer_id, skill_id, weight).
          v \<leftarrow> tbl_volunteers db,
          (volunteer_id, skill_id, weight) \<leftarrow> tbl_volunteer_skills db,
          volunteer_id = v_id v]"

text \<open>
  \<open>volunteer_skills\<close> is a dictionary of dictionaries. The loop below iterates over its
  items, in insertion order, so the outer dictionary is an association list: a new
  volunteer is appended, a known one is updated in place.
\<close>

fun set_skill :: "uuid \<Rightarrow> skill_id \<Rightarrow> real \<Rightarrow> (uuid \<times> weights) list \<Rightarrow> (uuid \<times> weights) list" where
  "set_skill volunteer_id skill_id weight [] = [(volunteer_id, [skill_id \<mapsto> weight])]"
| "set_skill volunteer_id skill_id weight ((k, skills) # rest) =
     (if k = volunteer_id then (k, skills(skill_id \<mapsto> weight)) # rest
      else (k, skills) # set_skill volunteer_id skill_id weight rest)"

definition build_volunteer_skills :: "(uuid \<times> skill_id \<times> real) list \<Rightarrow> (uuid \<times> weights) list" where
  "build_volunteer_skills rows =
     foldl (\<lambda>volunteer_skills (volunteer_id, skill_id, weight).
              set_skill volunteer_id skill_id weight volunteer_skills) [] rows"

text \<open>
  The body of the inner loop, for one initiative and one volunteer. The loop state is the
  list \<open>matches\<close> and the counter \<open>processed\<close>. \<open>datetime.now()\<close> is read from a clock
  that is a parameter of the run: \<open>clock n\<close> is the time at which pair number \<open>n\<close> is
  processed.
\<close>

definition match_pair ::
  "(nat \<Rightarrow> timestamp) \<Rightarrow> uuid \<times> skill_id list \<Rightarrow> match_record list \<times> nat \<Rightarrow>
   uuid \<times> weights \<Rightarrow> match_record list \<times> nat" where
  "match_pair clock initiative state volunteer =
     (case initiative of (initiative_id, required_skills) \<Rightarrow>
      case volunteer of (volunteer_id, skills) \<Rightarrow>
      case state of (matches, processed) \<Rightarrow>
      case calculate_cosine_similarity skills required_skills of
        (cosine_score, matched_ids, matched_count) \<Rightarrow>
          (if matched_count > 0
           then
             let euclidean_score = calculate_euclidean_similarity skills required_skills;
                 coverage_score = calculate_coverage_score skills required_skills;
                 jaccard = real matched_count / real (length required_skills)
             in matches @
                [\<lparr>vim_volunteer_id = volunteer_id, vim_initiative_id = initiative_id,
                  vim_match_score = cosine_score, vim_jaccard_index = jaccard,
                  vim_matched_skill_ids = matched_ids,
                  vim_matched_skill_count = matched_count,
                  vim_calculated_at = clock processed\<rparr>]
           else matches,
           processed + 1))"

definition calculate_all_pairs ::
  "(nat \<Rightarrow> timestamp) \<Rightarrow> (uuid \<times> skill_id list) list \<Rightarrow> (uuid \<times> weights) list \<Rightarrow>
   match_record list" where
  \<comment> \<open>the two nested \<open>for\<close> loops\<close>
  "calculate_all_pairs clock initiatives volunteer_skills =
     fst (foldl (\<lambda>state initiative. foldl (match_pair clock initiative) state volunteer_skills)
            ([], 0) initiatives)"

definition recalculate_all_matches :: "database \<Rightarrow> (nat \<Rightarrow> timestamp) \<Rightarrow> database" where
  \<comment> \<open>\<open>TRUNCATE\<close>, then insert the new rows, then commit\<close>
  "recalculate_all_matches db clock =
     (let initiatives = select_active_initiatives db;
          volunteer_skills = build_volunteer_skills (select_volunteer_skills db);
          matches = calculate_all_pairs clock initiatives volunteer_skills
      in db\<lparr>tbl_volunteer_initiative_matches := matches\<rparr>)"

definition without_time :: "match_record \<Rightarrow> match_record" where
  \<comment> \<open>a row with its \<open>calculated_at\<close> column blanked, to compare the other columns\<close>
  "without_time m = m\<lparr>vim_calculated_at := 0\<rparr>"

section \<open>Candidate notification (backend/jobs/notify\_project\_matches.py)\<close>

subsection \<open>Connection, configuration, errors\<close>

text \<open>
  The job works through one database connection. Its state is the database together with
  what the run threads along: the supply of fresh UUIDs for \<open>uuid.uuid4()\<close>, the database
  time \<open>NOW()\<close>, and the lines printed so far. Any statement sent to the database may
  fail: \<open>db_fails n s\<close> says whether the statement \<open>s\<close>, sent as number \<open>n\<close> of the
  run, raises, and \<open>stmt_count\<close> counts the statements sent. A failed statement changes no
  table.
\<close>

datatype error = DatabaseError | ValueError

datatype statement =
    Select_recruiting_projects
  | Select_top_candidates uuid int real uuid
      \<comment> \<open>project, limit, threshold, batch\<close>
  | Insert_project_message uuid uuid uuid string
      \<comment> \<open>message id, project, sender, text\<close>
  | Insert_candidate_notification uuid uuid uuid real uuid
      \<comment> \<open>notification id, project, volunteer, score, batch\<close>
  | Commit

datatype event =
    Batch_started uuid
  | Found_projects nat
  | Processing_project string uuid
  | No_new_candidates
  | Found_candidates nat
  | Notified string int
  | Failed_to_notify string error
  | Notified_team_lead nat
  | Failed_team_lead error
  | Batch_completed nat nat

record connection = database +
  uuid_counter :: nat
  db_now :: timestamp
  db_fails :: "nat \<Rightarrow> statement \<Rightarrow> bool"
  stmt_count :: nat
  printed :: "event list"

record config =
  TOP_K_CANDIDATES :: int
  MIN_MATCH_SCORE :: real
  SYSTEM_USER_ID :: "uuid option"
    \<comment> \<open>the parsed identifier; \<open>None\<close> when the configured text is not a UUID, in which
       case \<open>uuid.UUID(SYSTEM_USER_ID)\<close> raises \<open>ValueError\<close>\<close>

type_synonym candidate = "uuid \<times> uuid \<times> real \<times> string"
  \<comment> \<open>\<open>(volunteer_id, user_id, match_score, volunteer_name)\<close>\<close>

definition stmt_fails :: "connection \<Rightarrow> statement \<Rightarrow> bool" where
  "stmt_fails st s = db_fails st (stmt_count st) s"

definition tick :: "connection \<Rightarrow> connection" where
  "tick st = st\<lparr>stmt_count := stmt_count st + 1\<rparr>"

definition print :: "event \<Rightarrow> connection \<Rightarrow> connection" where
  "print e st = st\<lparr>printed := printed st @ [e]\<rparr>"

definition uuid4 :: "connection \<Rightarrow> uuid \<times> connection" where
  "uuid4 st = (uuid_counter st, st\<lparr>uuid_counter := uuid_counter st + 1\<rparr>)"

subsection \<open>Message texts\<close>

definition py_int :: "real \<Rightarrow> int" where
  \<comment> \<open>\<open>int(x)\<close> of a float: truncation towards zero\<close>
  "py_int x = (if 0 \<le> x then \<lfloor>x\<rfloor> else \<lceil>x\<rceil>)"

definition percent_match :: "real \<Rightarrow> int" where
  \<comment> \<open>the expression \<open>int(match_score * 100)\<close> of both messages and of the log line\<close>
  "percent_match match_score = py_int (match_score * 100)"

function str_nat :: "nat \<Rightarrow> string" where
  "str_nat n = (if n < 10 then [''0123456789'' ! n]
                else str_nat (n div 10) @ [''0123456789'' ! (n mod 10)])"
  by pat_completeness auto
termination
  by (relation "measure id") auto

declare str_nat.simps [simp del]

definition str_int :: "int \<Rightarrow> string" where
  "str_int i = (if i < 0 then ''-'' @ str_nat (nat (- i)) else str_nat (nat i))"


text \<open>Texts are byte strings in UTF-8; the pictographs and the bullet are written out in bytes.\<close>

definition candidate_message_text :: "string \<Rightarrow> real \<Rightarrow> string" where
  "candidate_message_text project_title match_score =
     [CHR 0xF0, CHR 0x9F, CHR 0x8E, CHR 0xAF] @ '' Great news! You'' @ [CHR 0x27] @
     ''re a top match for '' @ [CHR 0x22] @ project_title @ [CHR 0x22] @ ''!'' @
     [CHR 0x0A, CHR 0x0A] @ ''Your skills align '' @ str_int (percent_match match_score) @
     ''% with this project'' @ [CHR 0x27] @ ''s needs. '' @ [CHR 0x0A, CHR 0x0A] @
     ''Check out the project details and apply if you'' @ [CHR 0x27] @
     ''re interested in contributing!''"



subsection \<open>Queries and inserts\<close>


definition notification_exists :: "connection \<Rightarrow> uuid \<Rightarrow> uuid \<Rightarrow> uuid \<Rightarrow> bool" where
  \<comment> \<open>the subquery under \<open>NOT EXISTS\<close>, and the conflict test of the insert\<close>
  "notification_exists st project_id volunteer_id batch_id =
     list_ex (\<lambda>cn. cn_project_id cn = project_id \<and> cn_volunteer_id cn = volunteer_id \<and>
                    cn_notification_batch_id cn = batch_id)
       (tbl_candidate_notifications st)"

definition notification_key :: "notification_row \<Rightarrow> uuid \<times> uuid \<times> uuid" where
  \<comment> \<open>the columns of the uniqueness constraint of \<open>candidate_notifications\<close>\<close>
  "notification_key cn = (cn_project_id cn, cn_volunteer_id cn, cn_notification_batch_id cn)"

definition candidate_rows ::
  "connection \<Rightarrow> uuid \<Rightarrow> real \<Rightarrow> uuid \<Rightarrow> (project_match_row \<times> volunteer_row) list" where
  \<comment> \<open>the join of the matches with the volunteers, under the \<open>WHERE\<close> clause\<close>
  "candidate_rows st project_id min_score batch_id =
     filter (\<lambda>(m, v). vpm_project_id m = project_id \<and> vpm_match_score m \<ge> min_score \<and>
                       v_skills_visible v \<and>
                       \<not> notification_exists st project_id (v_id v) batch_id)
       [(m, v). m \<leftarrow> tbl_volunteer_project_matches st, v \<leftarrow> tbl_volunteers st,
                vpm_volunteer_id m = v_id v]"

definition ranking_key :: "project_match_row \<times> volunteer_row \<Rightarrow> real \<times> int" where
  \<comment> \<open>\<open>ORDER BY m.match_score DESC, m.matched_skill_count DESC\<close>: ascending in the
     negated columns, compared lexicographically\<close>
  "ranking_key r = (case r of (m, v) \<Rightarrow> (- vpm_match_score m, - vpm_matched_skill_count m))"

definition ranked_before ::
  "project_match_row \<times> volunteer_row \<Rightarrow> project_match_row \<times> volunteer_row \<Rightarrow> bool" where
  \<comment> \<open>the order of the \<open>ORDER BY\<close> clause, written out: higher score first, and among
     equal scores the higher matched skill count first\<close>
  "ranked_before r1 r2 =
     (vpm_match_score (fst r1) > vpm_match_score (fst r2) \<or>
      vpm_match_score (fst r1) = vpm_match_score (fst r2) \<and>
      vpm_matched_skill_count (fst r1) \<ge> vpm_matched_skill_count (fst r2))"

definition selected_rows ::
  "connection \<Rightarrow> uuid \<Rightarrow> int \<Rightarrow> real \<Rightarrow> uuid \<Rightarrow> (project_match_row \<times> volunteer_row) list" where
  \<comment> \<open>ordered, then cut by \<open>LIMIT\<close>\<close>
  "selected_rows st project_id top_k min_score batch_id =
     take (nat top_k) (sort_key ranking_key (candidate_rows st project_id min_score batch_id))"

definition select_columns :: "project_match_row \<times> volunteer_row \<Rightarrow> candidate" where
  "select_columns r = (case r of (m, v) \<Rightarrow> (v_id v, v_user_id v, vpm_match_score m, v_name v))"

definition get_top_candidates ::
  "connection \<Rightarrow> uuid \<Rightarrow> int \<Rightarrow> real \<Rightarrow> uuid \<Rightarrow> (error + candidate list) \<times> connection" where
  \<comment> \<open>a negative \<open>LIMIT\<close> is an error of the database\<close>
  "get_top_candidates st project_id top_k min_score batch_id =
     (if stmt_fails st (Select_top_candidates project_id top_k min_score batch_id) \<or> top_k < 0
      then (Inl DatabaseError, tick st)
      else (Inr (map select_columns (selected_rows st project_id top_k min_score batch_id)),
            tick st))"

definition insert_project_message ::
  "connection \<Rightarrow> uuid \<Rightarrow> uuid \<Rightarrow> uuid \<Rightarrow> string \<Rightarrow> (error + unit) \<times> connection" where
  "insert_project_message st message_id project_id system_user message_text =
     (if stmt_fails st (Insert_project_message message_id project_id system_user message_text)
      then (Inl DatabaseError, tick st)
      else (Inr (),
            (tick st)\<lparr>tbl_project_messages := tbl_project_messages st @
               [\<lparr>pm_id = message_id, pm_project_id = project_id, pm_sender_id = system_user,
                 pm_message_text = message_text, pm_created_at = db_now st\<rparr>]\<rparr>))"

definition send_candidate_notification ::
  "config \<Rightarrow> connection \<Rightarrow> uuid \<Rightarrow> string \<Rightarrow> uuid \<Rightarrow> real \<Rightarrow> (error + unit) \<times> connection" where
  "send_candidate_notification cfg st project_id project_title volunteer_user_id match_score =
     (let message_text = candidate_message_text project_title match_score;
          (message_id, st1) = uuid4 st
      in case SYSTEM_USER_ID cfg of
           None \<Rightarrow> (Inl ValueError, st1)
         | Some system_user \<Rightarrow>
             insert_project_message st1 message_id project_id system_user message_text)"


definition record_notification ::
  "connection \<Rightarrow> uuid \<Rightarrow> uuid \<Rightarrow> real \<Rightarrow> uuid \<Rightarrow> (error + unit) \<times> connection" where
  \<comment> \<open>\<open>ON CONFLICT (project_id, volunteer_id, notification_batch_id) DO NOTHING\<close>\<close>
  "record_notification st project_id volunteer_id match_score batch_id =
     (let (notification_id, st1) = uuid4 st in
      if stmt_fails st1 (Insert_candidate_notification notification_id project_id volunteer_id
                           match_score batch_id)
      then (Inl DatabaseError, tick st1)
      else if notification_exists st1 project_id volunteer_id batch_id then (Inr (), tick st1)
      else (Inr (),
            (tick st1)\<lparr>tbl_candidate_notifications := tbl_candidate_notifications st1 @
               [\<lparr>cn_id = notification_id, cn_project_id = project_id,
                 cn_volunteer_id = volunteer_id, cn_match_score = match_score,
                 cn_notification_batch_id = batch_id, cn_notified_at = db_now st1\<rparr>]\<rparr>))"


subsection \<open>The notification run\<close>

text \<open>
  The body of the loop over the candidates of one project, with its \<open>try\<close> and
  \<open>except\<close>: whatever the two calls raise is caught, printed, and the loop goes on. The
  loop state is the connection and \<open>total_candidates_notified\<close>.
\<close>

definition notify_candidate ::
  "config \<Rightarrow> uuid \<Rightarrow> string \<Rightarrow> uuid \<Rightarrow> connection \<times> nat \<Rightarrow> candidate \<Rightarrow> connection \<times> nat" where
  "notify_candidate cfg project_id project_title batch_id state c =
     (case state of (st, total_candidates_notified) \<Rightarrow>
      case c of (volunteer_id, user_id, match_score, volunteer_name) \<Rightarrow>
      case send_candidate_notification cfg st project_id project_title user_id match_score of
        (Inl e, st1) \<Rightarrow> (print (Failed_to_notify volunteer_name e) st1, total_candidates_notified)
      | (Inr _, st1) \<Rightarrow>
          (case record_notification st1 project_id volunteer_id match_score batch_id of
             (Inl e, st2) \<Rightarrow>
               (print (Failed_to_notify volunteer_name e) st2, total_candidates_notified)
           | (Inr _, st2) \<Rightarrow>
               (print (Notified volunteer_name (percent_match match_score)) st2,
                total_candidates_notified + 1)))"







subsection \<open>Relations between two states of the connection\<close>

text \<open>
  Two relations used to follow a run: the tables a run only reads, and the failure
  behaviour of the database, are the same in both states; the notification ledger of the
  later state extends that of the earlier one.
\<close>

definition same_inputs :: "connection \<Rightarrow> connection \<Rightarrow> bool" where
  "same_inputs st st' =
     (tbl_volunteer_project_matches st' = tbl_volunteer_project_matches st \<and>
      tbl_volunteers st' = tbl_volunteers st \<and> tbl_projects st' = tbl_projects st \<and>
      db_fails st' = db_fails st)"

definition ledger_grows :: "connection \<Rightarrow> connection \<Rightarrow> bool" where
  "ledger_grows st st' =
     (\<exists>new. tbl_candidate_notifications st' = tbl_candidate_notifications st @ new)"

subsection \<open>Example data\<close>

text \<open>
  A small database for the worked examples: initiative 21 requires skills 1, 2 and 3,
  initiative 22 is active but requires nothing, initiative 23 is closed; volunteer 10 has
  skills 1 and 2, volunteer 11 has skill 9. \<open>clock_from t0\<close> is a clock that shows
  \<open>t0\<close> at the first pair and advances by one per pair.
\<close>

definition example_db :: database where
  "example_db =
     \<lparr>tbl_initiatives = [(21, ''active''), (22, ''active''), (23, ''closed'')],
      tbl_initiative_required_skills = [(21, 1), (21, 2), (21, 3), (23, 1)],
      tbl_volunteers =
        [\<lparr>v_id = 10, v_user_id = 110, v_name = ''Ada'', v_skills_visible = True\<rparr>,
         \<lparr>v_id = 11, v_user_id = 111, v_name = ''Bob'', v_skills_visible = True\<rparr>],
      tbl_volunteer_skills = [(10, 2, 0.5), (11, 9, 1), (10, 1, 0.8)],
      tbl_volunteer_initiative_matches = [],
      tbl_projects = [],
      tbl_volunteer_project_matches = [],
      tbl_candidate_notifications = [],
      tbl_project_messages = []\<rparr>"

definition clock_from :: "timestamp \<Rightarrow> nat \<Rightarrow> timestamp" where
  "clock_from t0 n = t0 + n"

text \<open>
  For the notification job: project 31 (``Garden'', with a team lead) and project 32
  (``Library'', with an administrator only); volunteers 10 to 13, of whom 12 hides their
  skills; the matches of project 31 carry the scores 9/10, 17/20 and 3/5 (that is 0.9,
  0.85 and 0.6) with 3, 5 and 1 matched skills, and 19/20 for the hidden volunteer. No
  statement fails. The configuration asks for the top 2 above 3/5.
\<close>

definition no_failures :: "nat \<Rightarrow> statement \<Rightarrow> bool" where
  "no_failures n s = False"

definition example_conn :: connection where
  "example_conn =
     \<lparr>tbl_initiatives = [], tbl_initiative_required_skills = [],
      tbl_volunteers =
        [\<lparr>v_id = 10, v_user_id = 110, v_name = ''Ada'', v_skills_visible = True\<rparr>,
         \<lparr>v_id = 11, v_user_id = 111, v_name = ''Bob'', v_skills_visible = True\<rparr>,
         \<lparr>v_id = 12, v_user_id = 112, v_name = ''Cy'', v_skills_visible = False\<rparr>,
         \<lparr>v_id = 13, v_user_id = 113, v_name = ''Di'', v_skills_visible = True\<rparr>],
      tbl_volunteer_skills = [], tbl_volunteer_initiative_matches = [],
      tbl_projects =
        [\<lparr>p_id = 31, p_title = ''Garden'', p_team_lead_id = Some 500,
          p_created_by_admin_id = Some 501, p_project_status = ''recruiting'',
          p_created_at = 20\<rparr>,
         \<lparr>p_id = 32, p_title = ''Library'', p_team_lead_id = None,
          p_created_by_admin_id = Some 501, p_project_status = ''active'',
          p_created_at = 10\<rparr>],
      tbl_volunteer_project_matches =
        [\<lparr>vpm_project_id = 31, vpm_volunteer_id = 13, vpm_match_score = 3/5,
          vpm_matched_skill_count = 1\<rparr>,
         \<lparr>vpm_project_id = 31, vpm_volunteer_id = 11, vpm_match_score = 17/20,
          vpm_matched_skill_count = 5\<rparr>,
         \<lparr>vpm_project_id = 31, vpm_volunteer_id = 12, vpm_match_score = 19/20,
          vpm_matched_skill_count = 4\<rparr>,
         \<lparr>vpm_project_id = 31, vpm_volunteer_id = 10, vpm_match_score = 9/10,
          vpm_matched_skill_count = 3\<rparr>,
         \<lparr>vpm_project_id = 32, vpm_volunteer_id = 13, vpm_match_score = 15/16,
          vpm_matched_skill_count = 2\<rparr>],
      tbl_candidate_notifications = [], tbl_project_messages = [],
      uuid_counter = 1000, db_now = 5000, db_fails = no_failures, stmt_count = 0,
      printed = []\<rparr>"

definition example_cfg :: config where
  "example_cfg = \<lparr>TOP_K_CANDIDATES = 2, MIN_MATCH_SCORE = 3/5, SYSTEM_USER_ID = Some 0\<rparr>"

definition example_notified :: connection where
  "example_notified =
     fst (foldl (notify_candidate example_cfg 31 ''Garden'' 77) (tick example_conn, 0)
            [(10, 110, 9/10, ''Ada''), (11, 111, 17/20, ''Bob'')])"



section \<open>Properties of the match scoring\<close>

subsection \<open>Vectors\<close>

lemma dot_ones: "dot xs (ones (length xs)) = sum_list xs"
  by (induction xs) (simp_all add: dot_def ones_def)

lemma norm2_ones: "norm2 (ones n) = sqrt (real n)"
  by (induction n) (simp_all add: norm2_def ones_def)

lemma norm2_nonneg: "0 \<le> norm2 xs"
  by (auto simp: norm2_def intro!: sum_list_nonneg)

lemma sum_list_centred:
  fixes xs :: "real list"
  shows "(\<Sum>x \<leftarrow> xs. (x - m) * (x - m)) =
         (\<Sum>x \<leftarrow> xs. x * x) - 2 * m * sum_list xs + real (length xs) * (m * m)"
  by (induction xs) (simp_all add: algebra_simps)

lemma sum_squared_le:
  fixes xs :: "real list"
  shows "sum_list xs * sum_list xs \<le> real (length xs) * (\<Sum>x \<leftarrow> xs. x * x)"
proof (cases "xs = []")
  case True
  then show ?thesis by simp
next
  case False
  define n where "n = real (length xs)"
  define s where "s = sum_list xs"
  define q where "q = (\<Sum>x \<leftarrow> xs. x * x)"
  have npos: "0 < n" using False by (simp add: n_def)
  have "0 \<le> (\<Sum>x \<leftarrow> xs. (x - s / n) * (x - s / n))"
    by (rule sum_list_nonneg) auto
  then have "0 \<le> q - 2 * (s / n) * s + n * ((s / n) * (s / n))"
    by (simp add: sum_list_centred q_def s_def n_def)
  also have "q - 2 * (s / n) * s + n * ((s / n) * (s / n)) = q - s * s / n"
    using npos by (simp add: field_simps)
  finally have "s * s / n \<le> q" by simp
  then have "s * s \<le> q * n" using npos by (simp add: pos_divide_le_eq)
  then show ?thesis by (simp add: n_def s_def q_def mult.commute)
qed

lemma sum_le_norms:
  fixes xs :: "real list"
  shows "sum_list xs \<le> norm2 xs * sqrt (real (length xs))"
proof -
  have "sum_list xs \<le> \<bar>sum_list xs\<bar>" by simp
  also have "\<dots> = sqrt (sum_list xs * sum_list xs)" by simp
  also have "\<dots> \<le> sqrt (real (length xs) * (\<Sum>x \<leftarrow> xs. x * x))"
    using sum_squared_le [of xs] by (simp only: real_sqrt_le_iff)
  also have "\<dots> = norm2 xs * sqrt (real (length xs))"
    by (simp add: norm2_def real_sqrt_mult mult.commute)
  finally show ?thesis .
qed

lemma cosine_of_unfold:
  "cosine_of W R =
     (let ms = filter (\<lambda>sid. sid \<in> dom W) R; v = map (\<lambda>sid. the (W sid)) ms in
      if ms = [] then 0
      else if norm2 v > 0 \<and> sqrt (real (length ms)) > 0
           then sum_list v / (norm2 v * sqrt (real (length ms))) else 0)"
  by (simp add: cosine_of_def calculate_cosine_similarity_def Let_def norm2_ones
      dot_ones [of "map f xs" for f xs, simplified])

lemma matched_ids_of_eq:
  "matched_ids_of W R = filter (\<lambda>sid. sid \<in> dom W) R"
  by (simp add: matched_ids_of_def calculate_cosine_similarity_def Let_def)

lemma matched_count_of_eq:
  "matched_count_of W R = length (filter (\<lambda>sid. sid \<in> dom W) R)"
  by (simp add: matched_count_of_def calculate_cosine_similarity_def Let_def)

lemma dom_scale_weights: "dom (scale_weights c W) = dom W"
  by (auto simp: scale_weights_def dom_def)

lemma scale_weights_the: "sid \<in> dom W \<Longrightarrow> the (scale_weights c W sid) = c * the (W sid)"
  by (auto simp: scale_weights_def)

lemma sum_list_scale: "(\<Sum>x \<leftarrow> xs. (c::real) * f x) = c * (\<Sum>x \<leftarrow> xs. f x)"
  by (induction xs) (simp_all add: algebra_simps)

lemma norm2_scale: "0 \<le> c \<Longrightarrow> norm2 (map (\<lambda>x. c * f x) xs) = c * norm2 (map f xs)"
proof -
  assume c: "0 \<le> c"
  have "(\<Sum>x \<leftarrow> map (\<lambda>x. c * f x) xs. x * x) = (c * c) * (\<Sum>x \<leftarrow> map f xs. x * x)"
    by (induction xs) (simp_all add: algebra_simps)
  then show ?thesis using c by (simp add: norm2_def real_sqrt_mult)
qed

text \<open>
  Every matched id is a key of the dictionary: the lookup \<open>volunteer_weights[sid]\<close> of
  the cosine function, modelled with \<open>the\<close>, never meets a missing key.
\<close>

lemma matched_in_dom: "sid \<in> set (matched_ids_of W R) \<Longrightarrow> sid \<in> dom W"
  by (simp add: matched_ids_of_eq)

text \<open>
  Claim C2. For a skill-weight dictionary whose weights are all non-negative and any list
  of required skill ids, the cosine score returned by \<open>calculate_cosine_similarity\<close>
  lies between 0 and 1, and when no required skill is a key of the dictionary the function
  returns score 0, no matched ids and count 0. The upper bound is the Cauchy-Schwarz
  inequality for the weight vector against the all-ones vector, in exact arithmetic.
\<close>

theorem cosine_score_in_unit_interval:
  assumes "\<forall>sid w. W sid = Some w \<longrightarrow> 0 \<le> w"
  shows "0 \<le> cosine_of W R \<and> cosine_of W R \<le> 1 \<and>
         (set R \<inter> dom W = {} \<longrightarrow> calculate_cosine_similarity W R = (0, [], 0))"
proof -
  define ms where "ms = filter (\<lambda>sid. sid \<in> dom W) R"
  define v where "v = map (\<lambda>sid. the (W sid)) ms"
  have vnn: "\<And>x. x \<in> set v \<Longrightarrow> 0 \<le> x"
    using assms by (auto simp: v_def ms_def)
  have s0: "0 \<le> sum_list v" using vnn by (rule sum_list_nonneg)
  have cs: "cosine_of W R =
      (if ms = [] then 0
       else if norm2 v > 0 \<and> sqrt (real (length ms)) > 0
            then sum_list v / (norm2 v * sqrt (real (length ms))) else 0)"
    by (simp add: cosine_of_unfold Let_def ms_def v_def)
  have lo: "0 \<le> cosine_of W R"
    using s0 norm2_nonneg [of v] by (simp add: cs)
  have hi: "cosine_of W R \<le> 1"
  proof (cases "ms \<noteq> [] \<and> norm2 v > 0 \<and> sqrt (real (length ms)) > 0")
    case True
    then have pos: "0 < norm2 v * sqrt (real (length ms))" by simp
    have "sum_list v \<le> norm2 v * sqrt (real (length v))" by (rule sum_le_norms)
    then have "sum_list v \<le> norm2 v * sqrt (real (length ms))" by (simp add: v_def)
    then have "sum_list v / (norm2 v * sqrt (real (length ms))) \<le> 1"
      using pos by (simp add: pos_divide_le_eq)
    then show ?thesis using True by (simp add: cs)
  next
    case False
    then show ?thesis by (auto simp: cs)
  qed
  have "set R \<inter> dom W = {} \<Longrightarrow> filter (\<lambda>sid. sid \<in> dom W) R = []"
    by (auto simp: filter_empty_conv)
  then have em: "set R \<inter> dom W = {} \<longrightarrow> calculate_cosine_similarity W R = (0, [], 0)"
    by (simp add: calculate_cosine_similarity_def Let_def)
  from lo hi em show ?thesis by blast
qed

theorem cosine_score_in_unit_interval_witness:
  "0 \<le> cosine_of [1 \<mapsto> 0.8, 2 \<mapsto> 0.5] [1, 2, 3] \<and>
   cosine_of [1 \<mapsto> 0.8, 2 \<mapsto> 0.5] [1, 2, 3] \<le> 1 \<and>
   set [4, 5] \<inter> dom [1::int \<mapsto> 0.8, 2 \<mapsto> 0.5::real] = {} \<and>
   calculate_cosine_similarity [1 \<mapsto> 0.8, 2 \<mapsto> 0.5] [4, 5] = (0, [], 0)"
proof -
  have h: "\<forall>sid w. [1::int \<mapsto> 0.8, 2 \<mapsto> 0.5::real] sid = Some w \<longrightarrow> 0 \<le> w"
    by (simp split: if_splits)
  have e: "set [4, 5] \<inter> dom [1::int \<mapsto> 0.8, 2 \<mapsto> 0.5::real] = {}" by simp
  show ?thesis
    using h e cosine_score_in_unit_interval [OF h, of "[1, 2, 3]"]
      cosine_score_in_unit_interval [OF h, of "[4, 5]"]
    by blast
qed

text \<open>The worked example: weights \<open>{1: 0.8, 2: 0.5}\<close> against required skills \<open>[1, 2, 3]\<close>.\<close>

lemma cosine_spec_example:
  "calculate_cosine_similarity [1 \<mapsto> 0.8, 2 \<mapsto> 0.5] [1, 2, 3] =
     (1.3 / (sqrt 0.89 * sqrt 2), [1, 2], 2)"
  by (simp add: calculate_cosine_similarity_def Let_def dot_def ones_def norm2_def)


text \<open>
  Claim C3, as the code has it. The matched ids are the required list filtered to the keys
  of the dictionary, in order and with every repetition kept; the matched count is the
  length of that list. As a set the matched ids are the intersection of the required ids
  with the keys, so the count is at least the size of the intersection, and it equals that
  size when the required list has no duplicates.
\<close>

theorem matched_skills_counted_per_occurrence:
  "matched_ids_of W R = filter (\<lambda>sid. sid \<in> dom W) R \<and>
   matched_count_of W R = length (matched_ids_of W R) \<and>
   set (matched_ids_of W R) = set R \<inter> dom W \<and>
   card (set R \<inter> dom W) \<le> matched_count_of W R \<and>
   (distinct R \<longrightarrow> distinct (matched_ids_of W R) \<and>
      matched_count_of W R = card (set R \<inter> dom W))"
proof -
  have s: "set (filter (\<lambda>sid. sid \<in> dom W) R) = set R \<inter> dom W" by auto
  have c: "card (set R \<inter> dom W) \<le> length (filter (\<lambda>sid. sid \<in> dom W) R)"
    unfolding s [symmetric] by (rule card_length)
  have d: "length (filter (\<lambda>sid. sid \<in> dom W) R) = card (set R \<inter> dom W)" if "distinct R"
  proof -
    have "distinct (filter (\<lambda>sid. sid \<in> dom W) R)" using that by simp
    then have "card (set (filter (\<lambda>sid. sid \<in> dom W) R)) = length (filter (\<lambda>sid. sid \<in> dom W) R)"
      by (rule distinct_card)
    then show ?thesis by (simp only: s)
  qed
  show ?thesis
    using s c d by (simp add: matched_ids_of_eq matched_count_of_eq)
qed

theorem matched_skills_counted_per_occurrence_witness:
  "distinct [1, 2, 3 :: int] \<and>
   matched_ids_of [1 \<mapsto> 0.8, 2 \<mapsto> 0.5] [1, 2, 3] = [1, 2] \<and>
   matched_count_of [1 \<mapsto> 0.8, 2 \<mapsto> 0.5] [1, 2, 3] = 2 \<and>
   card (set [1, 2, 3] \<inter> dom [1::int \<mapsto> 0.8, 2 \<mapsto> 0.5::real]) = 2"
  using matched_skills_counted_per_occurrence [of "[1 \<mapsto> 0.8, 2 \<mapsto> 0.5]" "[1, 2, 3]"]
  by simp

text \<open>
  With the required skill 1 listed twice and a volunteer who has skill 1, the matched ids
  are \<open>[1, 1]\<close> and the count is 2, while the intersection has one element.
\<close>

theorem matched_count_duplicates_counterexample:
  "matched_ids_of [1 \<mapsto> 0.5] [1, 1] = [1, 1] \<and>
   matched_count_of [1 \<mapsto> 0.5] [1, 1] = 2 \<and>
   card (set [1, 1] \<inter> dom [1::int \<mapsto> 0.5::real]) = 1 \<and>
   matched_count_of [1 \<mapsto> 0.5] [1, 1] \<noteq> card (set [1, 1] \<inter> dom [1::int \<mapsto> 0.5::real])"
  by (simp add: matched_ids_of_eq matched_count_of_eq)

text \<open>
  The two other scores. For non-negative weights the Euclidean similarity lies between 0
  and 1, thanks to its clamp, and the coverage score is at least 0; the coverage score is
  at most 1 only when, in addition, no weight exceeds 1. Both are 0 for an empty required
  list.
\<close>

lemma coverage_and_euclidean_bounds:
  assumes "\<forall>sid w. W sid = Some w \<longrightarrow> 0 \<le> w"
  shows "0 \<le> calculate_euclidean_similarity W R \<and>
         calculate_euclidean_similarity W R \<le> 1 \<and>
         0 \<le> calculate_coverage_score W R \<and>
         ((\<forall>sid w. W sid = Some w \<longrightarrow> w \<le> 1) \<longrightarrow> calculate_coverage_score W R \<le> 1) \<and>
         calculate_euclidean_similarity W [] = 0 \<and>
         calculate_coverage_score W [] = 0"
proof -
  have g0: "\<And>sid. 0 \<le> dict_get W sid 0"
    using assms by (auto simp: dict_get_def split: option.splits)
  have e_lo: "0 \<le> calculate_euclidean_similarity W R"
    by (simp add: calculate_euclidean_similarity_def Let_def)
  have "0 \<le> norm2 xs / sqrt (real n)" for xs n
    by (simp add: norm2_nonneg)
  then have e_hi: "calculate_euclidean_similarity W R \<le> 1"
    by (simp add: calculate_euclidean_similarity_def Let_def min_def)
  have c_lo: "0 \<le> calculate_coverage_score W R"
    using g0 by (auto simp: calculate_coverage_score_def Let_def intro!: divide_nonneg_nonneg sum_list_nonneg)
  have c_hi: "calculate_coverage_score W R \<le> 1" if le1: "\<forall>sid w. W sid = Some w \<longrightarrow> w \<le> 1"
  proof (cases "R = []")
    case True
    then show ?thesis by (simp add: calculate_coverage_score_def)
  next
    case False
    have g1: "\<And>sid. dict_get W sid 0 \<le> 1"
      using le1 by (auto simp: dict_get_def split: option.splits)
    have "(\<Sum>sid \<leftarrow> R. dict_get W sid 0) \<le> (\<Sum>sid \<leftarrow> R. 1)"
      by (rule sum_list_mono) (simp add: g1)
    also have "\<dots> = real (length R)" by (simp add: sum_list_triv)
    finally show ?thesis using False
      by (simp add: calculate_coverage_score_def Let_def)
  qed
  show ?thesis
    using e_lo e_hi c_lo c_hi
    by (simp add: calculate_euclidean_similarity_def calculate_coverage_score_def)
qed

lemma coverage_and_euclidean_bounds_example:
  "0 \<le> calculate_euclidean_similarity [1 \<mapsto> 0.8, 2 \<mapsto> 0.5] [1, 2, 3] \<and>
   calculate_euclidean_similarity [1 \<mapsto> 0.8, 2 \<mapsto> 0.5] [1, 2, 3] \<le> 1 \<and>
   0 \<le> calculate_coverage_score [1 \<mapsto> 0.8, 2 \<mapsto> 0.5] [1, 2, 3] \<and>
   calculate_coverage_score [1 \<mapsto> 0.8, 2 \<mapsto> 0.5] [1, 2, 3] \<le> 1"
proof -
  have h0: "\<forall>sid w. [1::int \<mapsto> 0.8, 2 \<mapsto> 0.5::real] sid = Some w \<longrightarrow> 0 \<le> w"
    by (simp split: if_splits)
  have h1: "\<forall>sid w. [1::int \<mapsto> 0.8, 2 \<mapsto> 0.5::real] sid = Some w \<longrightarrow> w \<le> 1"
    by (simp split: if_splits)
  show ?thesis
    using h0 h1 coverage_and_euclidean_bounds [OF h0, of "[1, 2, 3]"] by blast
qed

text \<open>
  Claim C4, at the input where the code leaves the range. The docstring of
  \<open>calculate_coverage_score\<close> promises a score between 0 and 1, and the Euclidean
  similarity clamps its result into that range, but the coverage score is the plain mean
  of the weights: for a volunteer with the non-negative weight 2 on the only required
  skill it is 2, while the Euclidean similarity of the same input is 0.
\<close>

theorem coverage_score_exceeds_one:
  "(0::real) \<le> 2 \<and> calculate_coverage_score [1 \<mapsto> 2] [1] = 2 \<and>
   \<not> calculate_coverage_score [1 \<mapsto> 2] [1] \<le> 1 \<and>
   calculate_euclidean_similarity [1 \<mapsto> 2] [1] = 0"
  by (simp add: calculate_coverage_score_def calculate_euclidean_similarity_def dict_get_def
      ones_def norm2_def)

lemma norm2_replicate: "0 \<le> w \<Longrightarrow> norm2 (replicate n w) = sqrt (real n) * w"
proof -
  assume w: "0 \<le> w"
  have "(\<Sum>x \<leftarrow> replicate n w. x * x) = real n * (w * w)"
    by (simp add: sum_list_replicate)
  then show ?thesis using w by (simp add: norm2_def real_sqrt_mult)
qed

lemma cosine_of_single:
  assumes "set (matched_ids_of W R) = {s}" and "W s = Some w" and "0 < w"
  shows "cosine_of W R = 1"
proof -
  define ms where "ms = filter (\<lambda>sid. sid \<in> dom W) R"
  define n where "n = length ms"
  have sms: "set ms = {s}" using assms(1) by (simp add: matched_ids_of_eq ms_def)
  then have ne: "ms \<noteq> []" by auto
  then have npos: "0 < n" by (simp add: n_def)
  have "map (\<lambda>sid. the (W sid)) ms = map (\<lambda>sid. w) ms"
    by (rule map_cong) (use sms assms(2) in auto)
  then have v: "map (\<lambda>sid. the (W sid)) ms = replicate n w"
    by (simp add: map_replicate_const n_def)
  have nv: "norm2 (replicate n w) = sqrt (real n) * w"
    using assms(3) by (simp add: norm2_replicate)
  have sq: "sqrt (real n) * sqrt (real n) = real n" by simp
  have "real n * w / (sqrt (real n) * w * sqrt (real n)) = real n * w / (real n * w)"
    using sq by (simp add: mult.assoc mult.left_commute)
  also have "\<dots> = 1" using npos assms(3) by simp
  finally have q: "real n * w / (sqrt (real n) * w * sqrt (real n)) = 1" .
  show ?thesis
    using ne npos assms(3) q
    by (simp add: cosine_of_unfold Let_def ms_def [symmetric] v n_def [symmetric] nv
        sum_list_replicate)
qed

text \<open>
  Claim C10. Multiplying every weight by the same positive factor changes nothing in the
  result of \<open>calculate_cosine_similarity\<close>: same score, same matched ids, same count.
  When the matched ids are occurrences of a single skill whose weight is positive, the
  score is 1, whatever the weight. Both are identities of exact arithmetic, as is every
  statement about scores here.
\<close>

theorem cosine_scale_invariant:
  assumes "0 < c"
  shows "calculate_cosine_similarity (scale_weights c W) R = calculate_cosine_similarity W R \<and>
         (\<forall>s w. set (matched_ids_of W R) = {s} \<and> W s = Some w \<and> 0 < w \<longrightarrow> cosine_of W R = 1)"
proof -
  define ms where "ms = filter (\<lambda>sid. sid \<in> dom W) R"
  have v: "map (\<lambda>sid. the (scale_weights c W sid)) ms = map (\<lambda>sid. c * the (W sid)) ms"
    by (rule map_cong) (auto simp: ms_def scale_weights_the)
  have n: "norm2 (map (\<lambda>sid. c * the (W sid)) ms) = c * norm2 (map (\<lambda>sid. the (W sid)) ms)"
    using assms by (simp add: norm2_scale)
  have d: "dot (map (\<lambda>sid. c * the (W sid)) ms) (ones (length ms)) =
           c * dot (map (\<lambda>sid. the (W sid)) ms) (ones (length ms))"
    using dot_ones [of "map f ms" for f] by (simp add: sum_list_scale o_def)
  have "calculate_cosine_similarity (scale_weights c W) R = calculate_cosine_similarity W R"
    using assms
    by (simp add: calculate_cosine_similarity_def Let_def dom_scale_weights
        ms_def [symmetric] v n d zero_less_mult_iff)
  then show ?thesis using cosine_of_single by blast
qed

theorem cosine_scale_invariant_witness:
  "(0::real) < 3 \<and>
   calculate_cosine_similarity (scale_weights 3 [1 \<mapsto> 0.8, 2 \<mapsto> 0.5]) [1, 2, 3] =
     calculate_cosine_similarity [1 \<mapsto> 0.8, 2 \<mapsto> 0.5] [1, 2, 3] \<and>
   set (matched_ids_of [7 \<mapsto> 0.001] [7, 8]) = {7} \<and>
   [7::int \<mapsto> 0.001::real] 7 = Some 0.001 \<and> (0::real) < 0.001 \<and>
   cosine_of [7 \<mapsto> 0.001] [7, 8] = 1"
proof -
  have c: "(0::real) < 3" by simp
  have m: "set (matched_ids_of [7 \<mapsto> 0.001] [7, 8]) = {7}"
    by (simp add: matched_ids_of_eq)
  have l: "[7::int \<mapsto> 0.001::real] 7 = Some 0.001" by simp
  have p: "(0::real) < 0.001" by simp
  show ?thesis
    using c m l p cosine_scale_invariant [OF c, of "[1 \<mapsto> 0.8, 2 \<mapsto> 0.5]" "[1, 2, 3]"]
      cosine_scale_invariant [OF c, of "[7 \<mapsto> 0.001]" "[7, 8]"]
    by blast
qed

section \<open>Properties of the recompute pipeline\<close>

lemma match_pair_eq:
  "match_pair clock (i, req) (ms, n) (v, sk) =
     (ms @ (if 0 < matched_count_of sk req
            then [\<lparr>vim_volunteer_id = v, vim_initiative_id = i,
                   vim_match_score = cosine_of sk req,
                   vim_jaccard_index = real (matched_count_of sk req) / real (length req),
                   vim_matched_skill_ids = matched_ids_of sk req,
                   vim_matched_skill_count = matched_count_of sk req,
                   vim_calculated_at = clock n\<rparr>]
            else []), Suc n)"
  by (simp add: match_pair_def cosine_of_def matched_ids_of_def matched_count_of_def
      Let_def split: prod.splits)

lemma inner_loop_set:
  assumes "m \<in> set (fst (foldl (match_pair clock (i, req)) (ms, n) vols))"
  shows "m \<in> set ms \<or>
         (vim_initiative_id m = i \<and> 0 < vim_matched_skill_count m \<and>
          (\<exists>(v, sk) \<in> set vols. vim_volunteer_id m = v \<and>
             vim_matched_skill_count m = matched_count_of sk req \<and>
             vim_matched_skill_ids m = matched_ids_of sk req))"
  using assms
proof (induction vols arbitrary: ms n)
  case Nil
  then show ?case by simp
next
  case (Cons a vols)
  obtain v sk where a: "a = (v, sk)" by (cases a)
  from Cons.prems have
    "m \<in> set (fst (foldl (match_pair clock (i, req))
        (ms @ (if 0 < matched_count_of sk req
            then [\<lparr>vim_volunteer_id = v, vim_initiative_id = i,
                   vim_match_score = cosine_of sk req,
                   vim_jaccard_index = real (matched_count_of sk req) / real (length req),
                   vim_matched_skill_ids = matched_ids_of sk req,
                   vim_matched_skill_count = matched_count_of sk req,
                   vim_calculated_at = clock n\<rparr>]
            else []), Suc n) vols))"
    by (simp add: a match_pair_eq)
  from Cons.IH [OF this] show ?case
    by (auto simp: a split: if_splits)
qed

lemma outer_loop_set:
  assumes "m \<in> set (fst (foldl (\<lambda>state initiative. foldl (match_pair clock initiative) state vols)
                        (ms, n) inits))"
  shows "m \<in> set ms \<or>
         (0 < vim_matched_skill_count m \<and>
          (\<exists>(i, req) \<in> set inits. \<exists>(v, sk) \<in> set vols.
             vim_initiative_id m = i \<and> vim_volunteer_id m = v \<and>
             vim_matched_skill_count m = matched_count_of sk req \<and>
             vim_matched_skill_ids m = matched_ids_of sk req))"
  using assms
proof (induction inits arbitrary: ms n)
  case Nil
  then show ?case by simp
next
  case (Cons a inits)
  obtain i req where a: "a = (i, req)" by (cases a)
  obtain ms' n' where st: "foldl (match_pair clock (i, req)) (ms, n) vols = (ms', n')"
    by (cases "foldl (match_pair clock (i, req)) (ms, n) vols")
  from Cons.prems have "m \<in> set (fst (foldl (\<lambda>state initiative.
      foldl (match_pair clock initiative) state vols) (ms', n') inits))"
    by (simp add: a st)
  from Cons.IH [OF this] show ?case
  proof
    assume "m \<in> set ms'"
    then have "m \<in> set (fst (foldl (match_pair clock (i, req)) (ms, n) vols))"
      by (simp add: st)
    from inner_loop_set [OF this] show ?thesis by (auto simp: a)
  next
    assume "0 < vim_matched_skill_count m \<and>
          (\<exists>(i, req) \<in> set inits. \<exists>(v, sk) \<in> set vols.
             vim_initiative_id m = i \<and> vim_volunteer_id m = v \<and>
             vim_matched_skill_count m = matched_count_of sk req \<and>
             vim_matched_skill_ids m = matched_ids_of sk req)"
    then show ?thesis by auto
  qed
qed

lemma matched_count_pos_iff: "0 < matched_count_of sk req \<longleftrightarrow> set req \<inter> dom sk \<noteq> {}"
  by (auto simp: matched_count_of_eq filter_empty_conv)

lemma all_pairs_from_matching:
  "\<forall>m \<in> set (calculate_all_pairs clock initiatives volunteer_skills).
     1 \<le> vim_matched_skill_count m \<and>
     (\<exists>(i, req) \<in> set initiatives. \<exists>(v, sk) \<in> set volunteer_skills.
        vim_initiative_id m = i \<and> vim_volunteer_id m = v \<and>
        vim_matched_skill_count m = matched_count_of sk req \<and>
        vim_matched_skill_ids m = matched_ids_of sk req \<and>
        req \<noteq> [] \<and> set req \<inter> dom sk \<noteq> {})"
proof
  fix m
  assume "m \<in> set (calculate_all_pairs clock initiatives volunteer_skills)"
  then have "m \<in> set (fst (foldl (\<lambda>state initiative.
      foldl (match_pair clock initiative) state volunteer_skills) ([], 0) initiatives))"
    by (simp add: calculate_all_pairs_def)
  from outer_loop_set [OF this]
  have pos: "0 < vim_matched_skill_count m"
    and ex: "\<exists>(i, req) \<in> set initiatives. \<exists>(v, sk) \<in> set volunteer_skills.
             vim_initiative_id m = i \<and> vim_volunteer_id m = v \<and>
             vim_matched_skill_count m = matched_count_of sk req \<and>
             vim_matched_skill_ids m = matched_ids_of sk req"
    by auto
  from ex obtain i req v sk where
    mem: "(i, req) \<in> set initiatives" "(v, sk) \<in> set volunteer_skills"
    and eq: "vim_initiative_id m = i" "vim_volunteer_id m = v"
      "vim_matched_skill_count m = matched_count_of sk req"
      "vim_matched_skill_ids m = matched_ids_of sk req"
    by auto
  from pos eq(3) have "0 < matched_count_of sk req" by simp
  then have ne: "set req \<inter> dom sk \<noteq> {}" by (simp add: matched_count_pos_iff)
  then have "req \<noteq> []" by auto
  with mem eq ne pos
  show "1 \<le> vim_matched_skill_count m \<and>
     (\<exists>(i, req) \<in> set initiatives. \<exists>(v, sk) \<in> set volunteer_skills.
        vim_initiative_id m = i \<and> vim_volunteer_id m = v \<and>
        vim_matched_skill_count m = matched_count_of sk req \<and>
        vim_matched_skill_ids m = matched_ids_of sk req \<and>
        req \<noteq> [] \<and> set req \<inter> dom sk \<noteq> {})"
    by force
qed


lemma example_initiatives:
  "select_active_initiatives example_db = [(21, [1, 2, 3])]"
  by (simp add: select_active_initiatives_def example_db_def)

lemma example_rows:
  "select_volunteer_skills example_db = [(10, 1, 0.8), (10, 2, 0.5), (11, 9, 1)]"
  by (simp add: select_volunteer_skills_def example_db_def)

lemma example_skills:
  "build_volunteer_skills (select_volunteer_skills example_db) =
     [(10, [1 \<mapsto> 0.8, 2 \<mapsto> 0.5]), (11, [9 \<mapsto> 1])]"
  by (simp add: example_rows build_volunteer_skills_def)

lemma example_pairs:
  "calculate_all_pairs clock [(21, [1, 2, 3])] [(10, [1 \<mapsto> 0.8, 2 \<mapsto> 0.5]), (11, [9 \<mapsto> 1])] =
     [\<lparr>vim_volunteer_id = 10, vim_initiative_id = 21,
       vim_match_score = cosine_of [1 \<mapsto> 0.8, 2 \<mapsto> 0.5] [1, 2, 3],
       vim_jaccard_index = 2 / 3,
       vim_matched_skill_ids = [1, 2],
       vim_matched_skill_count = 2,
       vim_calculated_at = clock 0\<rparr>]"
  by (simp add: calculate_all_pairs_def match_pair_eq matched_count_of_eq matched_ids_of_eq)

lemma inputs_untouched:
  "select_active_initiatives (db\<lparr>tbl_volunteer_initiative_matches := ms\<rparr>) =
     select_active_initiatives db"
  "select_volunteer_skills (db\<lparr>tbl_volunteer_initiative_matches := ms\<rparr>) =
     select_volunteer_skills db"
  by (simp_all add: select_active_initiatives_def select_volunteer_skills_def Let_def
      cong: if_cong)

lemma recalculate_twice:
  "recalculate_all_matches (recalculate_all_matches db clock1) clock2 =
   recalculate_all_matches db clock2"
  by (simp add: recalculate_all_matches_def Let_def inputs_untouched)

lemma example_recalculated:
  "tbl_volunteer_initiative_matches (recalculate_all_matches example_db clock) =
     [\<lparr>vim_volunteer_id = 10, vim_initiative_id = 21,
       vim_match_score = cosine_of [1 \<mapsto> 0.8, 2 \<mapsto> 0.5] [1, 2, 3],
       vim_jaccard_index = 2 / 3,
       vim_matched_skill_ids = [1, 2],
       vim_matched_skill_count = 2,
       vim_calculated_at = clock 0\<rparr>]"
proof -
  have "tbl_volunteer_initiative_matches (recalculate_all_matches example_db clock) =
      calculate_all_pairs clock [(21, [1, 2, 3])]
        [(10, [1 \<mapsto> 0.8, 2 \<mapsto> 0.5]), (11, [9 \<mapsto> 1])]"
    unfolding recalculate_all_matches_def Let_def example_initiatives example_skills
    by simp
  then show ?thesis by (simp only: example_pairs)
qed

lemma inner_loop_without_time:
  assumes "map without_time ms1 = map without_time ms2"
  shows "map without_time (fst (foldl (match_pair c1 ini) (ms1, n1) vols)) =
         map without_time (fst (foldl (match_pair c2 ini) (ms2, n2) vols))"
  using assms
proof (induction vols arbitrary: ms1 n1 ms2 n2)
  case Nil
  then show ?case by simp
next
  case (Cons a vols)
  obtain v sk where a: "a = (v, sk)" by (cases a)
  obtain i req where ini: "ini = (i, req)" by (cases ini)
  show ?case
    unfolding a ini foldl_Cons match_pair_eq
    by (rule Cons.IH [unfolded ini]) (insert Cons.prems, simp add: without_time_def)
qed

lemma outer_loop_without_time:
  assumes "map without_time ms1 = map without_time ms2"
  shows "map without_time (fst (foldl (\<lambda>state initiative.
             foldl (match_pair c1 initiative) state vols) (ms1, n1) inits)) =
         map without_time (fst (foldl (\<lambda>state initiative.
             foldl (match_pair c2 initiative) state vols) (ms2, n2) inits))"
  using assms
proof (induction inits arbitrary: ms1 n1 ms2 n2)
  case Nil
  then show ?case by simp
next
  case (Cons ini inits)
  obtain ms1' n1' where s1: "foldl (match_pair c1 ini) (ms1, n1) vols = (ms1', n1')"
    by (cases "foldl (match_pair c1 ini) (ms1, n1) vols")
  obtain ms2' n2' where s2: "foldl (match_pair c2 ini) (ms2, n2) vols = (ms2', n2')"
    by (cases "foldl (match_pair c2 ini) (ms2, n2) vols")
  have "map without_time ms1' = map without_time ms2'"
    using inner_loop_without_time [OF Cons.prems, of c1 ini n1 vols c2 n2]
    by (simp add: s1 s2)
  from Cons.IH [OF this] show ?case by (simp add: s1 s2)
qed

text \<open>
  Claim C7, as the code has it. A second run on unchanged input tables stores the same
  rows in the same order with the same volunteer, initiative, score, jaccard index,
  matched ids and matched count as the first run; only \<open>calculated_at\<close>, which each run
  reads from the clock, may differ. With the same clock readings the second run leaves
  the database exactly as the first one did. The queries are taken to return their rows
  in the same order in both runs.
\<close>

theorem recompute_repeats_up_to_time:
  "map without_time (tbl_volunteer_initiative_matches
       (recalculate_all_matches (recalculate_all_matches db clock1) clock2)) =
   map without_time (tbl_volunteer_initiative_matches (recalculate_all_matches db clock1)) \<and>
   recalculate_all_matches (recalculate_all_matches db clock1) clock1 =
   recalculate_all_matches db clock1"
proof -
  have "map without_time (calculate_all_pairs clock2 inits vols) =
        map without_time (calculate_all_pairs clock1 inits vols)" for inits vols
    unfolding calculate_all_pairs_def
    by (rule outer_loop_without_time) simp
  then show ?thesis
    by (simp add: recalculate_all_matches_def Let_def inputs_untouched)
qed

text \<open>
  The stored rows are not identical when the clock has moved on between the runs: the
  first run stamps its row with time 100, the second with time 200.
\<close>

theorem recompute_timestamps_counterexample:
  "tbl_volunteer_initiative_matches
     (recalculate_all_matches (recalculate_all_matches example_db (clock_from 100)) (clock_from 200)) \<noteq>
   tbl_volunteer_initiative_matches (recalculate_all_matches example_db (clock_from 100))"
  by (simp add: recalculate_twice example_recalculated clock_from_def)

text \<open>
  Claim C6. Every row the two loops produce comes from an initiative and a volunteer of
  the inputs whose required list and skill keys overlap: its matched count is at least 1
  and is the count computed for that pair. So is every row stored by the pipeline. An
  initiative that is listed only with an empty required-skill list gets no row at all.
\<close>

theorem recompute_only_matching_pairs:
  "(\<forall>m \<in> set (calculate_all_pairs clock initiatives volunteer_skills).
      1 \<le> vim_matched_skill_count m \<and>
      (\<exists>(i, req) \<in> set initiatives. \<exists>(v, sk) \<in> set volunteer_skills.
         vim_initiative_id m = i \<and> vim_volunteer_id m = v \<and>
         vim_matched_skill_count m = matched_count_of sk req \<and>
         vim_matched_skill_ids m = matched_ids_of sk req \<and>
         req \<noteq> [] \<and> set req \<inter> dom sk \<noteq> {})) \<and>
   (\<forall>m \<in> set (tbl_volunteer_initiative_matches (recalculate_all_matches db clock)).
      1 \<le> vim_matched_skill_count m) \<and>
   ((\<forall>req. (i0, req) \<in> set initiatives \<longrightarrow> req = []) \<longrightarrow>
    (\<forall>m \<in> set (calculate_all_pairs clock initiatives volunteer_skills).
       vim_initiative_id m \<noteq> i0))"
proof (intro conjI)
  show "\<forall>m \<in> set (calculate_all_pairs clock initiatives volunteer_skills).
      1 \<le> vim_matched_skill_count m \<and>
      (\<exists>(i, req) \<in> set initiatives. \<exists>(v, sk) \<in> set volunteer_skills.
         vim_initiative_id m = i \<and> vim_volunteer_id m = v \<and>
         vim_matched_skill_count m = matched_count_of sk req \<and>
         vim_matched_skill_ids m = matched_ids_of sk req \<and>
         req \<noteq> [] \<and> set req \<inter> dom sk \<noteq> {})"
    by (rule all_pairs_from_matching)
  show "\<forall>m \<in> set (tbl_volunteer_initiative_matches (recalculate_all_matches db clock)).
      1 \<le> vim_matched_skill_count m"
    using all_pairs_from_matching by (simp add: recalculate_all_matches_def Let_def)
  show "(\<forall>req. (i0, req) \<in> set initiatives \<longrightarrow> req = []) \<longrightarrow>
    (\<forall>m \<in> set (calculate_all_pairs clock initiatives volunteer_skills).
       vim_initiative_id m \<noteq> i0)"
    using all_pairs_from_matching [of clock initiatives volunteer_skills] by fastforce
qed

theorem recompute_only_matching_pairs_witness:
  "map vim_initiative_id
     (calculate_all_pairs (clock_from 100) [(21, [1, 2, 3]), (22, [])]
        [(10, [1 \<mapsto> 0.8, 2 \<mapsto> 0.5]), (11, [9 \<mapsto> 1])]) = [21] \<and>
   map vim_matched_skill_count
     (calculate_all_pairs (clock_from 100) [(21, [1, 2, 3]), (22, [])]
        [(10, [1 \<mapsto> 0.8, 2 \<mapsto> 0.5]), (11, [9 \<mapsto> 1])]) = [2] \<and>
   map vim_matched_skill_count
     (tbl_volunteer_initiative_matches (recalculate_all_matches example_db (clock_from 100))) = [2]"
  using recompute_only_matching_pairs [of "clock_from 100" "[(21, [1, 2, 3]), (22, [])]"
      "[(10, [1 \<mapsto> 0.8, 2 \<mapsto> 0.5]), (11, [9 \<mapsto> 1])]" example_db 22]
  by (simp add: calculate_all_pairs_def match_pair_eq matched_count_of_eq matched_ids_of_eq
      example_recalculated)

section \<open>Properties of candidate selection and of the ledger\<close>

lemma ranking_key_le: "ranking_key r1 \<le> ranking_key r2 \<longleftrightarrow> ranked_before r1 r2"
  by (cases r1; cases r2) (auto simp: ranking_key_def ranked_before_def less_eq_prod_def)

lemma sorted_wrt_ranked: "sorted_wrt ranked_before (sort_key ranking_key rows)"
proof -
  have "sorted (map ranking_key (sort_key ranking_key rows))" by (rule sorted_sort_key)
  then show ?thesis by (simp add: sorted_map ranking_key_le)
qed

lemma selected_rows_sorted:
  "sorted_wrt ranked_before (selected_rows st project_id top_k min_score batch_id)"
  unfolding selected_rows_def by (rule sorted_wrt_take) (rule sorted_wrt_ranked)

lemma selected_rows_subset:
  "set (selected_rows st project_id top_k min_score batch_id) \<subseteq>
   set (candidate_rows st project_id min_score batch_id)"
  unfolding selected_rows_def using set_take_subset [of "nat top_k"] by fastforce

lemma candidate_rows_iff:
  "(m, v) \<in> set (candidate_rows st project_id min_score batch_id) \<longleftrightarrow>
     m \<in> set (tbl_volunteer_project_matches st) \<and> v \<in> set (tbl_volunteers st) \<and>
     vpm_volunteer_id m = v_id v \<and> vpm_project_id m = project_id \<and>
     min_score \<le> vpm_match_score m \<and> v_skills_visible v \<and>
     \<not> notification_exists st project_id (v_id v) batch_id"
  by (auto simp: candidate_rows_def)

lemma ranked_before_score: "ranked_before r1 r2 \<Longrightarrow> vpm_match_score (fst r2) \<le> vpm_match_score (fst r1)"
  by (auto simp: ranked_before_def)

text \<open>
  Claim C5. When candidate selection returns a list, the list has at most \<open>top_k\<close>
  entries; it is the projection of the selected rows, which are ordered by match score
  descending and, among equal scores, by matched skill count descending; every selected row
  joins a stored match of the project with a volunteer whose skills are visible, has a
  score of at least the threshold, and has no notification record for the project, the
  volunteer and the batch. Read on the returned tuples: the scores descend, each is at
  least the threshold, and no returned volunteer has a record in the batch.
\<close>

theorem top_candidates_contract:
  assumes "get_top_candidates st project_id top_k min_score batch_id = (Inr cs, st')"
  shows "length cs \<le> nat top_k \<and>
         cs = map select_columns (selected_rows st project_id top_k min_score batch_id) \<and>
         sorted_wrt ranked_before (selected_rows st project_id top_k min_score batch_id) \<and>
         sorted_wrt (\<ge>) (map (\<lambda>(volunteer_id, user_id, match_score, name). match_score) cs) \<and>
         (\<forall>(m, v) \<in> set (selected_rows st project_id top_k min_score batch_id).
            m \<in> set (tbl_volunteer_project_matches st) \<and> v \<in> set (tbl_volunteers st) \<and>
            vpm_volunteer_id m = v_id v \<and> vpm_project_id m = project_id \<and>
            min_score \<le> vpm_match_score m \<and> v_skills_visible v \<and>
            \<not> notification_exists st project_id (v_id v) batch_id) \<and>
         (\<forall>(volunteer_id, user_id, match_score, name) \<in> set cs.
            min_score \<le> match_score \<and>
            \<not> notification_exists st project_id volunteer_id batch_id \<and>
            (\<exists>v \<in> set (tbl_volunteers st). v_id v = volunteer_id \<and> v_skills_visible v))"
proof -
  let ?rows = "selected_rows st project_id top_k min_score batch_id"
  from assms have cs: "cs = map select_columns ?rows"
    by (auto simp: get_top_candidates_def split: if_splits)
  have len: "length cs \<le> nat top_k"
    by (simp add: cs selected_rows_def)
  have srt: "sorted_wrt ranked_before ?rows" by (rule selected_rows_sorted)
  have sc: "(\<lambda>(volunteer_id, user_id, match_score, name). match_score) \<circ> select_columns =
            (\<lambda>r. vpm_match_score (fst r))"
    by (auto simp: select_columns_def fun_eq_iff)
  have "sorted_wrt (\<lambda>r1 r2. vpm_match_score (fst r2) \<le> vpm_match_score (fst r1)) ?rows"
    by (rule sorted_wrt_mono_rel [OF _ srt]) (simp add: ranked_before_score)
  then have srt2: "sorted_wrt (\<ge>) (map (\<lambda>(volunteer_id, user_id, match_score, name). match_score) cs)"
    by (simp add: cs sc sorted_wrt_map)
  have rows: "\<forall>(m, v) \<in> set ?rows.
            m \<in> set (tbl_volunteer_project_matches st) \<and> v \<in> set (tbl_volunteers st) \<and>
            vpm_volunteer_id m = v_id v \<and> vpm_project_id m = project_id \<and>
            min_score \<le> vpm_match_score m \<and> v_skills_visible v \<and>
            \<not> notification_exists st project_id (v_id v) batch_id"
    using selected_rows_subset [of st project_id top_k min_score batch_id]
    by (auto simp: candidate_rows_iff)
  have out: "\<forall>(volunteer_id, user_id, match_score, name) \<in> set cs.
            min_score \<le> match_score \<and>
            \<not> notification_exists st project_id volunteer_id batch_id \<and>
            (\<exists>v \<in> set (tbl_volunteers st). v_id v = volunteer_id \<and> v_skills_visible v)"
    using rows by (fastforce simp: cs select_columns_def)
  from len cs srt srt2 rows out show ?thesis by blast
qed


lemma example_candidate_rows:
  "map select_columns (sort_key ranking_key (candidate_rows example_conn 31 (3/5) 77)) =
     [(10, 110, 9/10, ''Ada''), (11, 111, 17/20, ''Bob''), (13, 113, 3/5, ''Di'')]"
  by (simp add: candidate_rows_def example_conn_def notification_exists_def ranking_key_def
      select_columns_def)

lemma example_top_candidates:
  "get_top_candidates example_conn 31 2 (3/5) 77 =
     (Inr [(10, 110, 9/10, ''Ada''), (11, 111, 17/20, ''Bob'')], tick example_conn)"
proof -
  have "\<not> stmt_fails example_conn s" for s
    by (simp add: stmt_fails_def example_conn_def no_failures_def)
  then show ?thesis
    by (simp add: get_top_candidates_def selected_rows_def take_map [symmetric]
        example_candidate_rows)
qed

theorem top_candidates_contract_witness:
  "get_top_candidates example_conn 31 2 (3/5) 77 =
     (Inr [(10, 110, 9/10, ''Ada''), (11, 111, 17/20, ''Bob'')], tick example_conn) \<and>
   length [(10::nat, 110::nat, 9/10::real, ''Ada''), (11, 111, 17/20, ''Bob'')] \<le> nat 2 \<and>
   sorted_wrt (\<ge>) (map (\<lambda>(volunteer_id, user_id, match_score, name). match_score)
     [(10::nat, 110::nat, 9/10::real, ''Ada''), (11, 111, 17/20, ''Bob'')]) \<and>
   sorted_wrt ranked_before (selected_rows example_conn 31 2 (3/5) 77)"
proof -
  note r = example_top_candidates
  from top_candidates_contract [OF r]
  have "length [(10::nat, 110::nat, 9/10::real, ''Ada''), (11, 111, 17/20, ''Bob'')] \<le> nat 2"
    and "sorted_wrt (\<ge>) (map (\<lambda>(volunteer_id, user_id, match_score, name). match_score)
      [(10::nat, 110::nat, 9/10::real, ''Ada''), (11, 111, 17/20, ''Bob'')])"
    and "sorted_wrt ranked_before (selected_rows example_conn 31 2 (3/5) 77)"
    by blast+
  with r show ?thesis by blast
qed


subsection \<open>What the operations leave unchanged\<close>

lemma same_inputs_refl [simp]: "same_inputs st st"
  by (simp add: same_inputs_def)

lemma same_inputs_trans: "same_inputs a b \<Longrightarrow> same_inputs b c \<Longrightarrow> same_inputs a c"
  by (simp add: same_inputs_def)

lemma ledger_grows_refl [simp]: "ledger_grows st st"
  by (simp add: ledger_grows_def)

lemma ledger_grows_trans: "ledger_grows a b \<Longrightarrow> ledger_grows b c \<Longrightarrow> ledger_grows a c"
  by (auto simp: ledger_grows_def)

lemma ledger_grows_exists:
  "ledger_grows st st' \<Longrightarrow> notification_exists st p v b \<Longrightarrow> notification_exists st' p v b"
  by (auto simp: ledger_grows_def notification_exists_def)

lemma print_frame [simp]:
  "same_inputs st (print e st)" "ledger_grows st (print e st)"
  "tbl_candidate_notifications (print e st) = tbl_candidate_notifications st"
  "notification_exists (print e st) p v b = notification_exists st p v b"
  by (simp_all add: print_def same_inputs_def ledger_grows_def notification_exists_def)

lemma send_candidate_frame:
  assumes "send_candidate_notification cfg st p title u s = (r, st')"
  shows "same_inputs st st'"
    and "tbl_candidate_notifications st' = tbl_candidate_notifications st"
  using assms
  by (auto simp: send_candidate_notification_def insert_project_message_def uuid4_def tick_def
      same_inputs_def Let_def split: option.splits if_splits)


lemma record_notification_frame:
  assumes "record_notification st p v s b = (r, st')"
  shows "same_inputs st st'" and "ledger_grows st st'"
  using assms
  by (auto simp: record_notification_def uuid4_def tick_def stmt_fails_def
      same_inputs_def ledger_grows_def Let_def split: if_splits)

lemma record_notification_recorded:
  assumes "record_notification st p v s b = (Inr (), st')"
  shows "notification_exists st' p v b"
  using assms
  by (auto simp: record_notification_def uuid4_def tick_def stmt_fails_def
      notification_exists_def Let_def split: if_splits)

lemma record_notification_unique:
  assumes "record_notification st p v s b = (r, st')"
    and "distinct (map notification_key (tbl_candidate_notifications st))"
  shows "distinct (map notification_key (tbl_candidate_notifications st'))"
  using assms
  by (auto simp: record_notification_def uuid4_def tick_def stmt_fails_def
      notification_exists_def notification_key_def list_ex_iff Let_def split: if_splits)

lemma notify_candidate_step:
  assumes "notify_candidate cfg p title b (st, n) c = (st', n')"
  shows "same_inputs st st'" and "ledger_grows st st'"
    and "n \<le> n'" and "n' \<le> Suc n"
    and "n' = Suc n \<Longrightarrow> notification_exists st' p (fst c) b"
    and "distinct (map notification_key (tbl_candidate_notifications st)) \<Longrightarrow>
         distinct (map notification_key (tbl_candidate_notifications st'))"
proof -
  obtain v u s name where c: "c = (v, u, s, name)" by (cases c)
  obtain r1 st1 where s1: "send_candidate_notification cfg st p title u s = (r1, st1)"
    by (cases "send_candidate_notification cfg st p title u s")
  obtain r2 st2 where s2: "record_notification st1 p v s b = (r2, st2)"
    by (cases "record_notification st1 p v s b")
  note f1 = send_candidate_frame [OF s1]
  note f2 = record_notification_frame [OF s2]
  have res: "(st', n') =
      (case r1 of Inl e \<Rightarrow> (print (Failed_to_notify name e) st1, n)
       | Inr _ \<Rightarrow> (case r2 of Inl e \<Rightarrow> (print (Failed_to_notify name e) st2, n)
                   | Inr _ \<Rightarrow> (print (Notified name (percent_match s)) st2, n + 1)))"
    using assms by (simp add: notify_candidate_def c s1 s2 split: sum.splits)
  show "same_inputs st st'"
    using res f1(1) f2(1) by (auto simp: same_inputs_def print_def split: sum.splits)
  show "ledger_grows st st'"
    using res f1(2) f2(2) by (auto simp: ledger_grows_def print_def split: sum.splits)
  show "n \<le> n'" "n' \<le> Suc n" using res by (auto split: sum.splits)
  show "notification_exists st' p (fst c) b" if "n' = Suc n"
    using res that record_notification_recorded [of st1 p v s b st2] s2
    by (auto simp: c split: sum.splits)
  show "distinct (map notification_key (tbl_candidate_notifications st'))"
    if "distinct (map notification_key (tbl_candidate_notifications st))"
    using res that f1(2) record_notification_unique [OF s2]
    by (auto split: sum.splits)
qed

lemma notify_candidates_loop:
  assumes "foldl (notify_candidate cfg p title b) (st, n) cs = (st', n')"
  shows "same_inputs st st' \<and> ledger_grows st st' \<and> n \<le> n' \<and> n' \<le> n + length cs \<and>
         (n' = n + length cs \<longrightarrow> list_all (\<lambda>c. notification_exists st' p (fst c) b) cs) \<and>
         (distinct (map notification_key (tbl_candidate_notifications st)) \<longrightarrow>
          distinct (map notification_key (tbl_candidate_notifications st')))"
  using assms
proof (induction cs arbitrary: st n)
  case Nil
  then show ?case by simp
next
  case (Cons c cs)
  obtain st1 n1 where s1: "notify_candidate cfg p title b (st, n) c = (st1, n1)"
    by (cases "notify_candidate cfg p title b (st, n) c")
  note step = notify_candidate_step [OF s1]
  from Cons.prems have "foldl (notify_candidate cfg p title b) (st1, n1) cs = (st', n')"
    by (simp add: s1)
  note ih = Cons.IH [OF this]
  have a: "same_inputs st st'" using step(1) ih same_inputs_trans by blast
  have g: "ledger_grows st st'" using step(2) ih ledger_grows_trans by blast
  have le: "n \<le> n'" "n' \<le> n + length (c # cs)" using step(3,4) ih by auto
  have all: "list_all (\<lambda>c. notification_exists st' p (fst c) b) (c # cs)"
    if eq: "n' = n + length (c # cs)"
  proof -
    from eq step(4) ih have n1: "n1 = Suc n" by auto
    then have "notification_exists st1 p (fst c) b" by (rule step(5))
    then have "notification_exists st' p (fst c) b"
      using ih ledger_grows_exists by blast
    moreover from eq n1 ih have "list_all (\<lambda>c. notification_exists st' p (fst c) b) cs"
      by auto
    ultimately show ?thesis by simp
  qed
  have d: "distinct (map notification_key (tbl_candidate_notifications st'))"
    if "distinct (map notification_key (tbl_candidate_notifications st))"
    using that step(6) ih by blast
  from a g le all d show ?case by blast
qed

lemma reselect_disjoint:
  assumes "list_all (\<lambda>c. notification_exists st2 p (fst c) b) cs"
    and "get_top_candidates st2 p k t b = (Inr cs', st3)"
  shows "set (map fst cs) \<inter> set (map fst cs') = {}"
proof -
  have "\<not> notification_exists st2 p v b" if "v \<in> set (map fst cs')" for v
  proof -
    from assms(2) have cs': "cs' = map select_columns (selected_rows st2 p k t b)"
      by (auto simp: get_top_candidates_def split: if_splits)
    with that obtain m w where mw: "(m, w) \<in> set (selected_rows st2 p k t b)" and v: "v = v_id w"
      by (auto simp: select_columns_def)
    from mw selected_rows_subset have "(m, w) \<in> set (candidate_rows st2 p t b)" by blast
    then show ?thesis by (simp add: candidate_rows_iff v)
  qed
  moreover have "notification_exists st2 p v b" if "v \<in> set (map fst cs)" for v
    using assms(1) that by (auto simp: list_all_iff)
  ultimately show ?thesis by blast
qed

lemma fresh_batch_rows:
  assumes "\<not> list_ex (\<lambda>cn. cn_notification_batch_id cn = b) (tbl_candidate_notifications st)"
  shows "candidate_rows st p t b =
           filter (\<lambda>(m, v). vpm_project_id m = p \<and> t \<le> vpm_match_score m \<and> v_skills_visible v)
             [(m, v). m \<leftarrow> tbl_volunteer_project_matches st, v \<leftarrow> tbl_volunteers st,
                vpm_volunteer_id m = v_id v]"
proof -
  have "\<not> notification_exists st p v b" for v
    using assms by (auto simp: notification_exists_def list_ex_iff)
  then show ?thesis by (simp add: candidate_rows_def)
qed


lemma join_as_product:
  "[(m, v). m \<leftarrow> ms, v \<leftarrow> vs, f m = g v] = filter (\<lambda>(m, v). f m = g v) (List.product ms vs)"
proof (induction ms)
  case Nil
  then show ?case by simp
next
  case (Cons m ms)
  have "concat (map (\<lambda>v. if f m = g v then [(m, v)] else []) vs) =
        filter (\<lambda>(m, v). f m = g v) (map (Pair m) vs)"
    by (induction vs) simp_all
  with Cons show ?case by simp
qed

lemma selection_lists_nobody_twice:
  assumes keys: "distinct (map (\<lambda>m. (vpm_project_id m, vpm_volunteer_id m))
                     (tbl_volunteer_project_matches st))"
    and ids: "distinct (map v_id (tbl_volunteers st))"
    and run: "get_top_candidates st p k t b = (Inr cs, st1)"
  shows "distinct (map fst cs)"
proof -
  let ?rows = "candidate_rows st p t b"
  have dm: "distinct (tbl_volunteer_project_matches st)"
    using keys by (simp add: distinct_map)
  have dv: "distinct (tbl_volunteers st)"
    using ids by (simp add: distinct_map)
  have drows: "distinct ?rows"
    unfolding candidate_rows_def join_as_product
    by (intro distinct_filter distinct_product dm dv)
  have inj: "inj_on (\<lambda>r. v_id (snd r)) (set ?rows)"
  proof (rule inj_onI)
    fix r1 r2
    assume r1: "r1 \<in> set ?rows" and r2: "r2 \<in> set ?rows"
      and eq: "v_id (snd r1) = v_id (snd r2)"
    obtain m1 v1 where p1: "r1 = (m1, v1)" by (cases r1)
    obtain m2 v2 where p2: "r2 = (m2, v2)" by (cases r2)
    from r1 r2 have f1: "m1 \<in> set (tbl_volunteer_project_matches st)"
      "v1 \<in> set (tbl_volunteers st)" "vpm_volunteer_id m1 = v_id v1" "vpm_project_id m1 = p"
      and f2: "m2 \<in> set (tbl_volunteer_project_matches st)"
      "v2 \<in> set (tbl_volunteers st)" "vpm_volunteer_id m2 = v_id v2" "vpm_project_id m2 = p"
      by (simp_all add: p1 p2 candidate_rows_iff)
    from eq have e: "v_id v1 = v_id v2" by (simp add: p1 p2)
    have "v1 = v2"
      using ids f1(2) f2(2) e by (auto simp: distinct_map dest: inj_onD)
    moreover have "m1 = m2"
      using keys f1(1,3,4) f2(1,3,4) e by (auto simp: distinct_map dest: inj_onD)
    ultimately show "r1 = r2" by (simp add: p1 p2)
  qed
  have "distinct (map (\<lambda>r. v_id (snd r)) (sort_key ranking_key ?rows))"
    using drows inj by (simp add: distinct_map)
  then have "distinct (take (nat k) (map (\<lambda>r. v_id (snd r)) (sort_key ranking_key ?rows)))"
    by (rule distinct_take)
  moreover from run have "cs = map select_columns (selected_rows st p k t b)"
    by (auto simp: get_top_candidates_def split: if_splits)
  moreover have "fst \<circ> select_columns = (\<lambda>r. v_id (snd r))"
    by (auto simp: select_columns_def fun_eq_iff)
  ultimately show ?thesis
    by (simp add: selected_rows_def take_map)
qed

text \<open>
  Claim C1. If a record for the batch exists for every candidate that a first selection
  returned, then a second selection for the same project and batch returns volunteers
  disjoint from the first ones. The loop of the job establishes this: when it counts
  every candidate as notified, every candidate has a record. A successful
  \<open>record_notification\<close> leaves the record in the ledger, touches neither the matches nor
  the volunteers, and keeps the ledger free of duplicate (project, volunteer, batch) keys.
  For a batch identifier without any record, selection excludes nobody: the eligible rows
  are all rows of the project that pass the threshold and the visibility filter. When the
  match table holds one row per project and volunteer and volunteer ids are unique, a
  single selection lists no volunteer twice.
\<close>

theorem notification_dedup:
  "(get_top_candidates st p k t b = (Inr cs, st1) \<and>
    list_all (\<lambda>c. notification_exists st2 p (fst c) b) cs \<and>
    get_top_candidates st2 p k' t' b = (Inr cs', st3) \<longrightarrow>
      set (map fst cs) \<inter> set (map fst cs') = {}) \<and>
   (foldl (notify_candidate cfg p title b) (sta, n) cs = (stb, n + length cs) \<longrightarrow>
      list_all (\<lambda>c. notification_exists stb p (fst c) b) cs) \<and>
   (record_notification stc p v s b = (Inr (), std) \<longrightarrow>
      notification_exists std p v b \<and>
      tbl_volunteer_project_matches std = tbl_volunteer_project_matches stc \<and>
      tbl_volunteers std = tbl_volunteers stc \<and>
      (distinct (map notification_key (tbl_candidate_notifications stc)) \<longrightarrow>
       distinct (map notification_key (tbl_candidate_notifications std)))) \<and>
   (\<not> list_ex (\<lambda>cn. cn_notification_batch_id cn = b') (tbl_candidate_notifications st) \<longrightarrow>
      candidate_rows st p t b' =
        filter (\<lambda>(m, v). vpm_project_id m = p \<and> t \<le> vpm_match_score m \<and> v_skills_visible v)
          [(m, v). m \<leftarrow> tbl_volunteer_project_matches st, v \<leftarrow> tbl_volunteers st,
             vpm_volunteer_id m = v_id v]) \<and>
   (distinct (map (\<lambda>m. (vpm_project_id m, vpm_volunteer_id m))
       (tbl_volunteer_project_matches st)) \<and>
    distinct (map v_id (tbl_volunteers st)) \<and>
    get_top_candidates st p k t b = (Inr cs, st1) \<longrightarrow>
      distinct (map fst cs))"
proof (intro conjI impI)
  assume "get_top_candidates st p k t b = (Inr cs, st1) \<and>
    list_all (\<lambda>c. notification_exists st2 p (fst c) b) cs \<and>
    get_top_candidates st2 p k' t' b = (Inr cs', st3)"
  then show "set (map fst cs) \<inter> set (map fst cs') = {}"
    using reselect_disjoint by blast
next
  assume "foldl (notify_candidate cfg p title b) (sta, n) cs = (stb, n + length cs)"
  from notify_candidates_loop [OF this]
  show "list_all (\<lambda>c. notification_exists stb p (fst c) b) cs" by blast
next
  assume r: "record_notification stc p v s b = (Inr (), std)"
  show "notification_exists std p v b" by (rule record_notification_recorded [OF r])
  show "tbl_volunteer_project_matches std = tbl_volunteer_project_matches stc"
    and "tbl_volunteers std = tbl_volunteers stc"
    using record_notification_frame(1) [OF r] by (simp_all add: same_inputs_def)
  assume "distinct (map notification_key (tbl_candidate_notifications stc))"
  then show "distinct (map notification_key (tbl_candidate_notifications std))"
    by (rule record_notification_unique [OF r])
next
  assume "\<not> list_ex (\<lambda>cn. cn_notification_batch_id cn = b') (tbl_candidate_notifications st)"
  then show "candidate_rows st p t b' =
        filter (\<lambda>(m, v). vpm_project_id m = p \<and> t \<le> vpm_match_score m \<and> v_skills_visible v)
          [(m, v). m \<leftarrow> tbl_volunteer_project_matches st, v \<leftarrow> tbl_volunteers st,
             vpm_volunteer_id m = v_id v]"
    by (rule fresh_batch_rows)
next
  assume "distinct (map (\<lambda>m. (vpm_project_id m, vpm_volunteer_id m))
       (tbl_volunteer_project_matches st)) \<and>
    distinct (map v_id (tbl_volunteers st)) \<and>
    get_top_candidates st p k t b = (Inr cs, st1)"
  then show "distinct (map fst cs)"
    using selection_lists_nobody_twice by blast
qed

lemma example_loop:
  "foldl (notify_candidate example_cfg 31 ''Garden'' 77) (tick example_conn, 0)
     [(10, 110, 9/10, ''Ada''), (11, 111, 17/20, ''Bob'')] = (example_notified, 2)"
  "tbl_candidate_notifications example_notified =
     [\<lparr>cn_id = 1001, cn_project_id = 31, cn_volunteer_id = 10, cn_match_score = 9/10,
       cn_notification_batch_id = 77, cn_notified_at = 5000\<rparr>,
      \<lparr>cn_id = 1003, cn_project_id = 31, cn_volunteer_id = 11, cn_match_score = 17/20,
       cn_notification_batch_id = 77, cn_notified_at = 5000\<rparr>]"
  "tbl_volunteer_project_matches example_notified = tbl_volunteer_project_matches example_conn"
  "tbl_volunteers example_notified = tbl_volunteers example_conn"
  "db_fails example_notified = no_failures"
  by (simp_all add: example_notified_def notify_candidate_def send_candidate_notification_def
      record_notification_def insert_project_message_def uuid4_def tick_def print_def
      stmt_fails_def notification_exists_def example_conn_def example_cfg_def no_failures_def
      Let_def)


lemma example_second_run:
  "get_top_candidates example_notified 31 2 (3/5) 77 =
     (Inr [(13, 113, 3/5, ''Di'')], tick example_notified)"
  "get_top_candidates example_notified 31 2 (3/5) 78 =
     (Inr [(10, 110, 9/10, ''Ada''), (11, 111, 17/20, ''Bob'')], tick example_notified)"
  by (simp_all add: get_top_candidates_def selected_rows_def candidate_rows_def
      notification_exists_def stmt_fails_def example_loop no_failures_def ranking_key_def
      select_columns_def example_conn_def)

lemma example_record:
  "record_notification example_conn 31 10 (9/10) 77 =
     (Inr (), snd (record_notification example_conn 31 10 (9/10) 77))"
  "tbl_candidate_notifications (snd (record_notification example_conn 31 10 (9/10) 77)) =
     [\<lparr>cn_id = 1000, cn_project_id = 31, cn_volunteer_id = 10, cn_match_score = 9/10,
       cn_notification_batch_id = 77, cn_notified_at = 5000\<rparr>]"
  by (simp_all add: record_notification_def uuid4_def tick_def stmt_fails_def
      notification_exists_def example_conn_def no_failures_def Let_def)

theorem notification_dedup_witness:
  "get_top_candidates example_conn 31 2 (3/5) 77 =
     (Inr [(10, 110, 9/10, ''Ada''), (11, 111, 17/20, ''Bob'')], tick example_conn) \<and>
   foldl (notify_candidate example_cfg 31 ''Garden'' 77) (tick example_conn, 0)
     [(10, 110, 9/10, ''Ada''), (11, 111, 17/20, ''Bob'')] = (example_notified, 2) \<and>
   notification_exists example_notified 31 10 77 \<and>
   notification_exists example_notified 31 11 77 \<and>
   get_top_candidates example_notified 31 2 (3/5) 77 =
     (Inr [(13, 113, 3/5, ''Di'')], tick example_notified) \<and>
   set (map fst [(10::nat, 110::nat, 9/10::real, ''Ada''), (11, 111, 17/20, ''Bob'')]) \<inter>
     set (map fst [(13::nat, 113::nat, 3/5::real, ''Di'')]) = {} \<and>
   get_top_candidates example_notified 31 2 (3/5) 78 =
     (Inr [(10, 110, 9/10, ''Ada''), (11, 111, 17/20, ''Bob'')], tick example_notified) \<and>
   notification_exists (snd (record_notification example_conn 31 10 (9/10) 77)) 31 10 77 \<and>
   distinct (map notification_key
     (tbl_candidate_notifications (snd (record_notification example_conn 31 10 (9/10) 77)))) \<and>
   distinct (map fst [(10::nat, 110::nat, 9/10::real, ''Ada''), (11, 111, 17/20, ''Bob'')])"
proof -
  note first = example_top_candidates
  have k0: "distinct (map (\<lambda>m. (vpm_project_id m, vpm_volunteer_id m))
       (tbl_volunteer_project_matches example_conn))"
    and i0: "distinct (map v_id (tbl_volunteers example_conn))"
    by (simp_all add: example_conn_def)
  have loop: "foldl (notify_candidate example_cfg 31 ''Garden'' 77) (tick example_conn, 0)
     [(10, 110, 9/10, ''Ada''), (11, 111, 17/20, ''Bob'')] =
       (example_notified, 0 + length [(10::nat, 110::nat, 9/10::real, ''Ada''), (11, 111, 17/20, ''Bob'')])"
    unfolding example_loop(1) by simp
  have fresh: "\<not> list_ex (\<lambda>cn. cn_notification_batch_id cn = 78)
      (tbl_candidate_notifications example_notified)"
    by (simp add: example_loop(2))
  have d0: "distinct (map notification_key (tbl_candidate_notifications example_conn))"
    by (simp add: example_conn_def)
  note inst = notification_dedup [where st = example_conn and p = 31 and k = 2 and t = "3/5"
      and b = 77 and cs = "[(10, 110, 9/10, ''Ada''), (11, 111, 17/20, ''Bob'')]"
      and ?st1.0 = "tick example_conn" and ?st2.0 = example_notified and k' = 2 and t' = "3/5"
      and cs' = "[(13, 113, 3/5, ''Di'')]" and ?st3.0 = "tick example_notified"
      and cfg = example_cfg and title = "''Garden''" and sta = "tick example_conn" and n = 0
      and stb = example_notified and stc = example_conn and v = 10 and s = "9/10"
      and std = "snd (record_notification example_conn 31 10 (9/10) 77)" and b' = 78]
  from inst loop have all: "list_all (\<lambda>c. notification_exists example_notified 31 (fst c) 77)
      [(10::nat, 110::nat, 9/10::real, ''Ada''), (11, 111, 17/20, ''Bob'')]"
    by blast
  from inst first all example_second_run(1)
  have disj: "set (map fst [(10::nat, 110::nat, 9/10::real, ''Ada''), (11, 111, 17/20, ''Bob'')]) \<inter>
     set (map fst [(13::nat, 113::nat, 3/5::real, ''Di'')]) = {}"
    by blast
  from inst example_record(1) d0
  have rec: "notification_exists (snd (record_notification example_conn 31 10 (9/10) 77)) 31 10 77"
    and dis: "distinct (map notification_key
      (tbl_candidate_notifications (snd (record_notification example_conn 31 10 (9/10) 77))))"
    by blast+
  from inst first k0 i0
  have once: "distinct (map fst [(10::nat, 110::nat, 9/10::real, ''Ada''), (11, 111, 17/20, ''Bob'')])"
    by blast
  from all have "notification_exists example_notified 31 10 77"
    and "notification_exists example_notified 31 11 77" by simp_all
  with first example_loop(1) example_second_run disj rec dis once show ?thesis by blast
qed

section \<open>Properties of the messages\<close>








section \<open>Properties of the notification run\<close>


lemma print_printed [simp]: "printed (print e st) = printed st @ [e]"
  by (simp add: print_def)








lemma tick_frame [simp]:
  "same_inputs st (tick st)" "printed (tick st) = printed st"
  by (simp_all add: tick_def same_inputs_def)










end
